theory Spec2Isabelle
  imports Main "HOL-Library.Word" "HOL-Library.DAList"
begin

unbundle bit_operations_syntax

section \<open>Go values used by the interceptors\<close>

text \<open>
  Bytes and \<open>int64\<close> are machine words. A run-time panic is a value: every function of
  the model that can panic returns \<open>panic + 'a\<close>, with \<open>Inl\<close> for the panic.
\<close>

type_synonym byte = "8 word"
type_synonym int64 = "64 word"

datatype panic = NilMapAssignment | IndexOutOfRange

definition and_then :: "panic + 'a \<Rightarrow> ('a \<Rightarrow> panic + 'b) \<Rightarrow> panic + 'b" where
  "and_then r f = (case r of Inl p \<Rightarrow> Inl p | Inr x \<Rightarrow> f x)"

text \<open>Indexing a slice, \<open>xs[i]\<close>: Go panics when the index is out of range.\<close>

definition go_index :: "'a list \<Rightarrow> nat \<Rightarrow> panic + 'a" where
  "go_index xs i = (if i < length xs then Inr (xs ! i) else Inl IndexOutOfRange)"

subsection \<open>Errors and gRPC status codes\<close>

text \<open>
  \<open>codes.Code\<close> is a \<open>uint32\<close>. An \<open>error\<close> is either a gRPC status error carrying a
  code, an error with no gRPC status (such as \<open>context.DeadlineExceeded\<close>), or an error
  wrapping another one. The nil error is \<open>None\<close> of \<open>go_error option\<close>.
\<close>

type_synonym Code = "32 word"

datatype go_error =
    StatusError Code string
  | PlainError string
  | WrappedError string go_error

definition codes_OK :: Code where
  "codes_OK = 0"

definition codes_Unknown :: Code where
  "codes_Unknown = 2"

definition code_names :: "string list" where
  "code_names =
     [''OK'', ''Canceled'', ''Unknown'', ''InvalidArgument'', ''DeadlineExceeded'',
      ''NotFound'', ''AlreadyExists'', ''PermissionDenied'', ''ResourceExhausted'',
      ''FailedPrecondition'', ''Aborted'', ''OutOfRange'', ''Unimplemented'', ''Internal'',
      ''Unavailable'', ''DataLoss'', ''Unauthenticated'']"

fun FormatInt_decimal :: "nat \<Rightarrow> string" where
  "FormatInt_decimal u =
     (if u \<ge> 10 then FormatInt_decimal (u div 10) @ [''0123456789'' ! (u mod 10)]
      else [''0123456789'' ! u])"

declare FormatInt_decimal.simps [simp del]

text \<open>\<open>Code.String()\<close>: the name of a known code, \<open>Code(n)\<close> for any other number.\<close>

definition Code_String :: "Code \<Rightarrow> string" where
  "Code_String c =
     (if unat c < length code_names then code_names ! unat c
      else ''Code('' @ FormatInt_decimal (unat c) @ '')'')"

text \<open>
  \<open>status.Code(err)\<close>: \<open>OK\<close> for the nil error, the code of the gRPC status the error
  carries (directly or through wrapping), and \<open>Unknown\<close> for an error with no status.
\<close>

fun grpc_status :: "go_error \<Rightarrow> Code option" where
  "grpc_status (StatusError c msg) = Some c"
| "grpc_status (PlainError msg) = None"
| "grpc_status (WrappedError msg e) = grpc_status e"

definition status_Code :: "go_error option \<Rightarrow> Code" where
  "status_Code err =
     (case err of
        None \<Rightarrow> codes_OK
      | Some e \<Rightarrow> (case grpc_status e of Some c \<Rightarrow> c | None \<Rightarrow> codes_Unknown))"

subsection \<open>Hexadecimal output\<close>

definition hextable :: string where
  "hextable = ''0123456789abcdef''"

text \<open>\<open>hex.EncodeToString\<close>: two digits per byte, high nibble first.\<close>

definition hex_EncodeToString :: "byte list \<Rightarrow> string" where
  "hex_EncodeToString src =
     concat (map (\<lambda>v. [hextable ! unat (drop_bit 4 v), hextable ! unat (v AND 0x0f)]) src)"

text \<open>
  \<open>fmt.Sprintf("%x", v)\<close> for an \<open>int64\<close>: the digits of the magnitude without leading
  zeros, after a minus sign when the value is negative. The magnitude is taken as
  \<open>fmt\<close> takes it, by negating the value as a \<open>uint64\<close>.
\<close>

fun fmtInteger_hex :: "nat \<Rightarrow> string" where
  "fmtInteger_hex u =
     (if u \<ge> 16 then fmtInteger_hex (u div 16) @ [hextable ! (u mod 16)]
      else [hextable ! u])"

declare fmtInteger_hex.simps [simp del]

definition fmt_Sprintf_x :: "int64 \<Rightarrow> string" where
  "fmt_Sprintf_x v =
     (if sint v < 0 then CHR ''-'' # fmtInteger_hex (unat (- v))
      else fmtInteger_hex (unat v))"




section \<open>The environment of a call\<close>

text \<open>
  \<open>crypto/rand\<close> either fails with an error or yields a stream of bytes; \<open>rand.Read(b)\<close>
  fills the whole buffer \<open>b\<close> on success. The clock gives \<open>time.Now().UnixNano()\<close>.
\<close>

datatype rand_source = RandFails go_error | RandYields "nat \<Rightarrow> byte"

definition rand_Read :: "rand_source \<Rightarrow> byte list \<Rightarrow> go_error + byte list" where
  "rand_Read src b =
     (case src of
        RandFails err \<Rightarrow> Inl err
      | RandYields f \<Rightarrow> Inr (map f [0..<length b]))"

record world =
  rand :: rand_source
  time_Now_UnixNano :: int64

section \<open>generateRequestID\<close>

definition generateRequestID :: "world \<Rightarrow> string" where
  "generateRequestID w =
     (let b = replicate 16 (0 :: byte)
      in case rand_Read (rand w) b of
           Inl err \<Rightarrow> fmt_Sprintf_x (time_Now_UnixNano w)
         | Inr b \<Rightarrow> hex_EncodeToString b)"

section \<open>Metadata and its carrier\<close>

text \<open>
  \<open>metadata.MD\<close> is \<open>map[string][]string\<close>. A Go map holds each key once, which the type
  of association lists with distinct keys expresses; the nil map is \<open>None\<close>. Reading a
  nil map gives the zero value, writing to it panics. \<open>MD.Get\<close> and \<open>MD.Set\<close> are gRPC's:
  both normalise the key with \<open>strings.ToLower\<close>, and \<open>Set\<close> with no values does nothing.
\<close>

type_synonym MD = "(string, string list) alist option"

text \<open>
  \<open>strings.ToLower\<close> on ASCII, which header keys are: the letters A to Z are mapped to
  a to z and every other byte is kept. The general theorems below hold for any
  normalisation of the key; only the examples at concrete keys evaluate this one.
\<close>

definition strings_ToLower :: "string \<Rightarrow> string" where
  "strings_ToLower s =
     map (\<lambda>c. let n = (of_char c :: nat)
              in if 65 \<le> n \<and> n \<le> 90 then char_of (n + 32) else c) s"

definition MD_Get :: "MD \<Rightarrow> string \<Rightarrow> string list" where
  "MD_Get md k =
     (let k = strings_ToLower k
      in case md of
           None \<Rightarrow> []
         | Some m \<Rightarrow> (case DAList.lookup m k of None \<Rightarrow> [] | Some vals \<Rightarrow> vals))"

definition MD_Set :: "MD \<Rightarrow> string \<Rightarrow> string list \<Rightarrow> panic + MD" where
  "MD_Set md k vals =
     (if length vals = 0 then Inr md
      else let k = strings_ToLower k
           in case md of
                None \<Rightarrow> Inl NilMapAssignment
              | Some m \<Rightarrow> Inr (Some (DAList.update k vals m)))"

definition metadataCarrier_Get :: "MD \<Rightarrow> string \<Rightarrow> panic + string" where
  "metadataCarrier_Get m key =
     (let values = MD_Get m key
      in if length values > 0 then go_index values 0 else Inr '''')"

text \<open>The map is mutated in place; the model returns the map after the call.\<close>

definition metadataCarrier_Set :: "MD \<Rightarrow> string \<Rightarrow> string \<Rightarrow> panic + MD" where
  "metadataCarrier_Set m key v = MD_Set m key [v]"

text \<open>
  \<open>for k := range m\<close> visits every entry of the map once, in an order Go leaves open.
  The model visits them in the order of the representation; the theorems about \<open>Keys\<close>
  speak of the keys returned, not of their order.
\<close>

definition map_entries :: "MD \<Rightarrow> (string \<times> string list) list" where
  "map_entries m = (case m of None \<Rightarrow> [] | Some hm \<Rightarrow> DAList.impl_of hm)"

definition metadataCarrier_Keys :: "MD \<Rightarrow> string list" where
  "metadataCarrier_Keys m = foldl (\<lambda>keys (k, vals). keys @ [k]) [] (map_entries m)"

section \<open>Contexts, spans, logs and metrics\<close>

text \<open>
  A \<open>context.Context\<close> as the interceptors see it: the metadata attached for the
  incoming and the outgoing direction (\<open>None\<close> when none is attached, so that
  \<open>FromIncomingContext\<close> and \<open>FromOutgoingContext\<close> answer \<open>ok = false\<close>; gRPC hands out
  a fresh, non-nil map otherwise), the identifiers of the active span (empty when the
  span context is not valid), and the two identifiers the logging package keeps.
\<close>

record Context =
  md_incoming :: "(string, string list) alist option"
  md_outgoing :: "(string, string list) alist option"
  span_trace_id :: string
  span_span_id :: string
  log_trace_id :: string
  log_request_id :: string

definition metadata_FromIncomingContext :: "Context \<Rightarrow> MD \<times> bool" where
  "metadata_FromIncomingContext ctx =
     (case md_incoming ctx of None \<Rightarrow> (None, False) | Some m \<Rightarrow> (Some m, True))"

definition metadata_FromOutgoingContext :: "Context \<Rightarrow> MD \<times> bool" where
  "metadata_FromOutgoingContext ctx =
     (case md_outgoing ctx of None \<Rightarrow> (None, False) | Some m \<Rightarrow> (Some m, True))"

definition metadata_NewOutgoingContext :: "Context \<Rightarrow> MD \<Rightarrow> Context" where
  "metadata_NewOutgoingContext ctx md =
     ctx\<lparr>md_outgoing := Some (case md of None \<Rightarrow> DAList.empty | Some m \<Rightarrow> m)\<rparr>"

definition trace_TraceIDFromContext :: "Context \<Rightarrow> string" where
  "trace_TraceIDFromContext ctx = span_trace_id ctx"

definition trace_SpanIDFromContext :: "Context \<Rightarrow> string" where
  "trace_SpanIDFromContext ctx = span_span_id ctx"

definition log_ContextWithTraceID :: "Context \<Rightarrow> string \<Rightarrow> Context" where
  "log_ContextWithTraceID ctx traceID = ctx\<lparr>log_trace_id := traceID\<rparr>"

definition log_ContextWithRequestID :: "Context \<Rightarrow> string \<Rightarrow> Context" where
  "log_ContextWithRequestID ctx requestID = ctx\<lparr>log_request_id := requestID\<rparr>"

definition log_TraceIDFromContext :: "Context \<Rightarrow> string" where
  "log_TraceIDFromContext ctx = log_trace_id ctx"

definition log_RequestIDFromContext :: "Context \<Rightarrow> string" where
  "log_RequestIDFromContext ctx = log_request_id ctx"

text \<open>
  The tracing backend is a parameter: how the configured propagator extracts a remote
  span context from a carrier, which header pairs it injects for a context, and what
  context \<open>trace.StartSpan\<close> returns.
\<close>

record otel =
  propagator_Extract :: "Context \<Rightarrow> MD \<Rightarrow> Context"
  propagator_fields :: "Context \<Rightarrow> (string \<times> string) list"
  trace_StartSpan :: "Context \<Rightarrow> string \<Rightarrow> Context"

text \<open>\<open>propagator.Inject(ctx, carrier)\<close> writes its header pairs through \<open>carrier.Set\<close>.\<close>

fun carrier_set_all :: "(string \<times> string) list \<Rightarrow> MD \<Rightarrow> panic + MD" where
  "carrier_set_all [] m = Inr m"
| "carrier_set_all ((k, v) # kvs) m = and_then (metadataCarrier_Set m k v) (carrier_set_all kvs)"

definition propagator_Inject :: "otel \<Rightarrow> Context \<Rightarrow> MD \<Rightarrow> panic + MD" where
  "propagator_Inject tr ctx carrier = carrier_set_all (propagator_fields tr ctx) carrier"

text \<open>
  What an interceptor does to its collaborators is a list of events, in the order of the
  calls: the counter and the histogram of the metrics package, the span, the logger.
  A duration is kept in nanoseconds (the source converts it to seconds as a float).
\<close>

datatype zap_field = zap_String string string | zap_Error go_error

datatype event =
    Counter_Inc string string
  | Histogram_Observe string string int
  | Span_Start string
  | Span_SetAttributes "(string \<times> string) list"
  | Span_RecordError go_error
  | Span_End
  | Logger_Info string "zap_field list"
  | Logger_Error string "zap_field list"

record UnaryServerInfo =
  FullMethod :: string

text \<open>
  The outcome of a server interceptor: the pair it returns, the context it handed to
  the handler, and the events. For the trace interceptor the outcome also shows the
  values its local variables \<open>traceID\<close> and \<open>requestID\<close> have when the handler is called.
\<close>

record 'resp outcome =
  returned :: "'resp \<times> go_error option"
  handler_ctx :: Context
  events :: "event list"

record 'resp trace_outcome = "'resp outcome" +
  traceID_var :: string
  requestID_var :: string

section \<open>MetricsUnaryInterceptor\<close>

text \<open>\<open>start\<close> is the clock at \<open>time.Now()\<close>, \<open>finish\<close> the clock when \<open>time.Since\<close> reads it.\<close>

definition MetricsUnaryInterceptor ::
  "int \<Rightarrow> int \<Rightarrow> Context \<Rightarrow> 'req \<Rightarrow> UnaryServerInfo \<Rightarrow>
   (Context \<Rightarrow> 'req \<Rightarrow> 'resp \<times> go_error option) \<Rightarrow> 'resp outcome" where
  "MetricsUnaryInterceptor start finish ctx req info handler =
     (let (resp, err) = handler ctx req;
          duration = finish - start;
          code = Code_String (status_Code err);
          code = (if err = None then Code_String codes_OK else code)
      in \<lparr>returned = (resp, err),
          handler_ctx = ctx,
          events = [Counter_Inc (FullMethod info) code,
                    Histogram_Observe (FullMethod info) code duration]\<rparr>)"

section \<open>TraceUnaryInterceptor\<close>

text \<open>The identifiers read from the inbound headers (empty when absent).\<close>

definition ids_from_metadata :: "MD \<Rightarrow> bool \<Rightarrow> panic + string \<times> string" where
  "ids_from_metadata md ok =
     (if ok \<and> md \<noteq> None then
        and_then (let values = MD_Get md ''x-trace-id''
                  in if length values > 0 then go_index values 0 else Inr '''')
          (\<lambda>traceID.
        and_then (let values = MD_Get md ''x-request-id''
                  in if length values > 0 then go_index values 0 else Inr '''')
          (\<lambda>requestID. Inr (traceID, requestID)))
      else Inr ('''', ''''))"

definition TraceUnaryInterceptor ::
  "otel \<Rightarrow> world \<Rightarrow> Context \<Rightarrow> 'req \<Rightarrow> UnaryServerInfo \<Rightarrow>
   (Context \<Rightarrow> 'req \<Rightarrow> 'resp \<times> go_error option) \<Rightarrow> panic + 'resp trace_outcome" where
  "TraceUnaryInterceptor tr w ctx req info handler =
     (let (md, ok) = metadata_FromIncomingContext ctx;
          ctx = (if ok then propagator_Extract tr ctx md else ctx);
          ctx = trace_StartSpan tr ctx (FullMethod info)
      in and_then (ids_from_metadata md ok) (\<lambda>(traceID, requestID).
         let traceID = (if traceID = '''' then trace_TraceIDFromContext ctx else traceID);
             requestID = (if requestID = '''' then generateRequestID w else requestID);
             ctx = (if traceID \<noteq> '''' then log_ContextWithTraceID ctx traceID else ctx);
             ctx = (if requestID \<noteq> '''' then log_ContextWithRequestID ctx requestID else ctx);
             started =
               (if traceID \<noteq> '''' \<or> requestID \<noteq> '''' then
                  [Logger_Info ''gRPC request started''
                     [zap_String ''method'' (FullMethod info),
                      zap_String ''trace_id'' traceID,
                      zap_String ''span_id'' (trace_SpanIDFromContext ctx)]]
                else []);
             (resp, err) = handler ctx req;
             attrs =
               [Span_SetAttributes
                  [(''rpc.method'', FullMethod info),
                   (''rpc.status_code'', Code_String (status_Code err))]];
             finished =
               (if log_TraceIDFromContext ctx \<noteq> '''' \<or> log_RequestIDFromContext ctx \<noteq> '''' then
                  (case err of
                     Some e \<Rightarrow>
                       [Logger_Error ''gRPC request failed''
                          [zap_String ''method'' (FullMethod info), zap_Error e]]
                   | None \<Rightarrow>
                       [Logger_Info ''gRPC request completed''
                          [zap_String ''method'' (FullMethod info)]])
                else [])
         in Inr \<lparr>returned = (resp, err),
                 handler_ctx = ctx,
                 events = [Span_Start (FullMethod info)] @ started @ attrs @ finished @ [Span_End],
                 traceID_var = traceID,
                 requestID_var = requestID\<rparr>))"

section \<open>TraceUnaryClientInterceptor\<close>

record client_outcome =
  returned_err :: "go_error option"
  invoker_ctx :: Context
  client_events :: "event list"

definition TraceUnaryClientInterceptor ::
  "otel \<Rightarrow> Context \<Rightarrow> string \<Rightarrow> 'req \<Rightarrow> 'reply \<Rightarrow>
   (Context \<Rightarrow> string \<Rightarrow> 'req \<Rightarrow> 'reply \<Rightarrow> go_error option) \<Rightarrow> panic + client_outcome" where
  "TraceUnaryClientInterceptor tr ctx method req reply invoker =
     (let ctx = trace_StartSpan tr ctx method;
          (md, ok) = metadata_FromOutgoingContext ctx;
          md = (if \<not> ok then Some DAList.empty else md)
      in and_then (propagator_Inject tr ctx md) (\<lambda>md.
         let ctx = metadata_NewOutgoingContext ctx md;
             attrs = [Span_SetAttributes [(''rpc.method'', method), (''rpc.system'', ''grpc'')]];
             err = invoker ctx method req reply;
             status =
               (case err of
                  Some e \<Rightarrow>
                    [Span_SetAttributes [(''rpc.status_code'', Code_String (status_Code err))],
                     Span_RecordError e]
                | None \<Rightarrow> [Span_SetAttributes [(''rpc.status_code'', ''OK'')]])
         in Inr \<lparr>returned_err = err,
                 invoker_ctx = ctx,
                 client_events = [Span_Start method] @ attrs @ status @ [Span_End]\<rparr>))"

section \<open>The inputs of the package's tests\<close>

text \<open>
  The unit tests call the interceptors with \<open>context.Background()\<close>, the method name
  \<open>/test.Service/TestMethod\<close>, a nil request, and a handler that returns either
  \<open>"response"\<close> or \<open>context.DeadlineExceeded\<close>. They run with the global propagator and
  tracer provider as they are before any is configured: nothing is extracted or injected
  and the span context is not valid. The carrier tests build their metadata with
  \<open>metadata.New\<close>. These inputs are the concrete inputs of the examples below.
\<close>

definition context_Background :: Context where
  "context_Background =
     \<lparr>md_incoming = None, md_outgoing = None, span_trace_id = '''', span_span_id = '''',
      log_trace_id = '''', log_request_id = ''''\<rparr>"

definition otel_noop :: otel where
  "otel_noop =
     \<lparr>propagator_Extract = (\<lambda>ctx md. ctx),
      propagator_fields = (\<lambda>ctx. []),
      trace_StartSpan = (\<lambda>ctx name. ctx)\<rparr>"

definition test_info :: UnaryServerInfo where
  "test_info = \<lparr>FullMethod = ''/test.Service/TestMethod''\<rparr>"

definition context_DeadlineExceeded :: go_error where
  "context_DeadlineExceeded = PlainError ''context deadline exceeded''"

definition test_handler :: "Context \<Rightarrow> unit \<Rightarrow> string option \<times> go_error option" where
  "test_handler ctx req = (Some ''response'', None)"

definition test_handler_error :: "Context \<Rightarrow> unit \<Rightarrow> string option \<times> go_error option" where
  "test_handler_error ctx req = (None, Some context_DeadlineExceeded)"

definition test_invoker_error ::
  "Context \<Rightarrow> string \<Rightarrow> unit \<Rightarrow> unit \<Rightarrow> go_error option" where
  "test_invoker_error ctx method req reply = Some context_DeadlineExceeded"

text \<open>A world whose random source fails, with the clock at 255 ns.\<close>

definition test_world :: world where
  "test_world = \<lparr>rand = RandFails (PlainError ''no entropy''), time_Now_UnixNano = 255\<rparr>"

text \<open>An inbound context that carries \<open>x-trace-id\<close> and no \<open>x-request-id\<close>.\<close>

definition test_incoming_context :: Context where
  "test_incoming_context =
     context_Background
       \<lparr>md_incoming := Some (DAList.update ''x-trace-id'' [''trace-1''] DAList.empty)\<rparr>"

text \<open>The metadata of \<open>TestMetadataCarrier_Get\<close> and of \<open>TestMetadataCarrier_Keys\<close>.\<close>

definition test_get_md :: MD where
  "test_get_md =
     Some (DAList.update ''x-test-key'' [''test-value'']
            (DAList.update ''x-another'' [''another-value'']
              (DAList.update ''x-empty-key'' [''''] DAList.empty)))"

definition test_keys_md :: MD where
  "test_keys_md =
     Some (DAList.update ''key1'' [''value1'']
            (DAList.update ''key2'' [''value2'']
              (DAList.update ''key3'' [''value3''] DAList.empty)))"

section \<open>Facts about hexadecimal output\<close>






lemma length_hex_EncodeToString: "length (hex_EncodeToString src) = 2 * length src"
  by (induction src) (simp_all add: hex_EncodeToString_def)


lemma fmtInteger_hex_nonempty: "fmtInteger_hex u \<noteq> []"
  by (subst fmtInteger_hex.simps) simp

lemma fmtInteger_hex_length: "0 < k \<Longrightarrow> u < 16 ^ k \<Longrightarrow> length (fmtInteger_hex u) \<le> k"
proof (induction u arbitrary: k rule: fmtInteger_hex.induct)
  case (1 u)
  show ?case
  proof (cases "u \<ge> 16")
    case True
    then obtain j where k: "k = Suc j" and j: "0 < j"
      using "1.prems" by (cases k; cases "k - 1") auto
    have "u div 16 < 16 ^ j" using "1.prems"(2) k by (simp add: less_mult_imp_div_less mult.commute)
    then have "length (fmtInteger_hex (u div 16)) \<le> j" using "1.IH" True j by simp
    then show ?thesis using True k by (subst fmtInteger_hex.simps) simp
  next
    case False
    then show ?thesis using "1.prems" by (subst fmtInteger_hex.simps) simp
  qed
qed















lemma length_fmt_Sprintf_x: "1 \<le> length (fmt_Sprintf_x v) \<and> length (fmt_Sprintf_x v) \<le> 17"
proof -
  have a: "length (fmtInteger_hex (unat w)) \<le> 16" for w :: int64
  proof -
    have "unat w < 2 ^ 64" using unsigned_less [of w, where 'a = nat] by simp
    then have "unat w < 16 ^ 16" by simp
    then show ?thesis by (rule fmtInteger_hex_length [rotated]) simp
  qed
  have b: "1 \<le> length (fmtInteger_hex u)" for u
    using fmtInteger_hex_nonempty [of u] by (cases "fmtInteger_hex u") simp_all
  show ?thesis using a [of v] a [of "- v"] b [of "unat v"]
    by (simp add: fmt_Sprintf_x_def)
qed

section \<open>Properties of generateRequestID\<close>

lemma generateRequestID_RandYields:
  "rand w = RandYields f \<Longrightarrow> generateRequestID w = hex_EncodeToString (map f [0..<16])"
  by (simp add: generateRequestID_def rand_Read_def)

lemma generateRequestID_RandFails:
  "rand w = RandFails e \<Longrightarrow> generateRequestID w = fmt_Sprintf_x (time_Now_UnixNano w)"
  by (simp add: generateRequestID_def rand_Read_def)






section \<open>Properties of the metadata carrier\<close>

lemma go_index_first: "go_index (v # vs) 0 = Inr v"
  by (simp add: go_index_def)

lemma first_value_cases:
  "(let values = xs in if length values > 0 then go_index values 0 else Inr '''') =
     Inr (case xs of [] \<Rightarrow> '''' | v # vs \<Rightarrow> v)"
  by (cases xs) (simp_all add: go_index_first)

lemma metadataCarrier_Get_MD_Get:
  "metadataCarrier_Get m key = Inr (case MD_Get m key of [] \<Rightarrow> '''' | v # vs \<Rightarrow> v)"
  unfolding metadataCarrier_Get_def by (rule first_value_cases)

lemma MD_Get_nil: "MD_Get None k = []"
  by (simp add: MD_Get_def)

lemma metadataCarrier_Set_Some:
  "metadataCarrier_Set (Some hm) key v = Inr (Some (DAList.update (strings_ToLower key) [v] hm))"
  by (simp add: metadataCarrier_Set_def MD_Set_def)

lemma keys_loop: "foldl (\<lambda>keys (k, vals). keys @ [k]) acc xs = acc @ map fst xs"
  by (induction xs arbitrary: acc) (simp_all add: case_prod_beta)

lemma metadataCarrier_Keys_entries: "metadataCarrier_Keys m = map fst (map_entries m)"
  by (simp add: metadataCarrier_Keys_def keys_loop)

lemma dom_lookup_impl_of: "dom (DAList.lookup hm) = fst ` set (DAList.impl_of hm)"
  by (simp add: DAList.lookup.rep_eq dom_map_of_conv_image_fst)

text \<open>
  C10. \<open>metadataCarrier.Get\<close> never panics, whatever the metadata (the nil map included)
  and whatever the key: it returns the first of the values the metadata holds for the
  key (which \<open>MD.Get\<close> looks up in lower case), and the empty string when the map is nil,
  when the key is absent, and when the key has no values.
\<close>

theorem metadataCarrier_Get_total:
  "metadataCarrier_Get m key =
     Inr (case m of
            None \<Rightarrow> ''''
          | Some hm \<Rightarrow>
              (case DAList.lookup hm (strings_ToLower key) of
                 None \<Rightarrow> ''''
               | Some [] \<Rightarrow> ''''
               | Some (v # vs) \<Rightarrow> v))"
  by (simp add: metadataCarrier_Get_MD_Get MD_Get_def split: option.splits list.splits)

text \<open>The four cases of \<open>TestMetadataCarrier_Get\<close>, and a read of the nil map.\<close>

theorem metadataCarrier_Get_total_witness:
  "metadataCarrier_Get test_get_md ''x-test-key'' = Inr ''test-value'' \<and>
   metadataCarrier_Get test_get_md ''x-another'' = Inr ''another-value'' \<and>
   metadataCarrier_Get test_get_md ''x-not-exist'' = Inr '''' \<and>
   metadataCarrier_Get test_get_md ''x-empty-key'' = Inr '''' \<and>
   metadataCarrier_Get None ''x-test-key'' = Inr ''''"
  using metadataCarrier_Get_total [of test_get_md "''x-test-key''"]
        metadataCarrier_Get_total [of test_get_md "''x-another''"]
        metadataCarrier_Get_total [of test_get_md "''x-not-exist''"]
        metadataCarrier_Get_total [of test_get_md "''x-empty-key''"]
        metadataCarrier_Get_total [of None "''x-test-key''"]
  by (simp add: test_get_md_def strings_ToLower_def)

text \<open>
  C4, as the code has it. On every metadata map that is not nil, \<open>Set(key, value)\<close>
  succeeds and \<open>Get(key)\<close> on the map it leaves returns \<open>value\<close>. On every metadata
  map, nil or not, \<open>Keys()\<close> returns exactly the keys of the map, each of them once.
\<close>

theorem metadataCarrier_round_trip:
  "(\<exists>m'. metadataCarrier_Set (Some hm) key v = Inr m' \<and> metadataCarrier_Get m' key = Inr v) \<and>
   set (metadataCarrier_Keys m) = (case m of None \<Rightarrow> {} | Some hm' \<Rightarrow> dom (DAList.lookup hm')) \<and>
   distinct (metadataCarrier_Keys m)"
proof (intro conjI)
  show "\<exists>m'. metadataCarrier_Set (Some hm) key v = Inr m' \<and> metadataCarrier_Get m' key = Inr v"
    by (simp add: metadataCarrier_Set_Some metadataCarrier_Get_MD_Get MD_Get_def)
  show "set (metadataCarrier_Keys m) = (case m of None \<Rightarrow> {} | Some hm' \<Rightarrow> dom (DAList.lookup hm'))"
    by (cases m) (simp_all add: metadataCarrier_Keys_entries map_entries_def dom_lookup_impl_of)
  show "distinct (metadataCarrier_Keys m)"
    by (cases m) (simp_all add: metadataCarrier_Keys_entries map_entries_def)
qed

text \<open>\<open>TestMetadataCarrier_Set\<close> on the empty map, and \<open>TestMetadataCarrier_Keys\<close>.\<close>

theorem metadataCarrier_round_trip_witness:
  "(\<exists>m'. metadataCarrier_Set (Some DAList.empty) ''x-new-key'' ''new-value'' = Inr m' \<and>
         metadataCarrier_Get m' ''x-new-key'' = Inr ''new-value'') \<and>
   set (metadataCarrier_Keys test_keys_md) = {''key1'', ''key2'', ''key3''} \<and>
   length (metadataCarrier_Keys test_keys_md) = 3"
proof -
  have keys: "metadataCarrier_Keys test_keys_md = [''key3'', ''key2'', ''key1'']"
    by (simp add: metadataCarrier_Keys_def map_entries_def test_keys_md_def
          DAList.update.rep_eq DAList.empty.rep_eq)
  show ?thesis
    using metadataCarrier_round_trip [of DAList.empty "''x-new-key''" "''new-value''" test_keys_md]
    by (auto simp: keys)
qed

text \<open>
  The claim C4 as it is written, for every metadata collection, fails on the nil map:
  \<open>Set\<close> assigns to an entry of a nil map, and the call panics instead of returning.
\<close>

theorem metadataCarrier_Set_nil_counterexample:
  "metadataCarrier_Set None ''x-new-key'' ''new-value'' = Inl NilMapAssignment"
  by (simp add: metadataCarrier_Set_def MD_Set_def)

section \<open>Properties of the metrics interceptor\<close>

lemma Code_String_OK: "Code_String codes_OK = ''OK''"
  by (simp add: Code_String_def codes_OK_def code_names_def)

lemma Code_String_Unknown: "Code_String codes_Unknown = ''Unknown''"
  by (simp add: Code_String_def codes_Unknown_def code_names_def)

lemma status_Code_None: "status_Code None = codes_OK"
  by (simp add: status_Code_def)

lemma status_Code_DeadlineExceeded: "status_Code (Some context_DeadlineExceeded) = codes_Unknown"
  by (simp add: status_Code_def context_DeadlineExceeded_def)

lemma MetricsUnaryInterceptor_returned:
  "returned (MetricsUnaryInterceptor start finish ctx req info handler) = handler ctx req"
  by (simp add: MetricsUnaryInterceptor_def Let_def split: prod.splits)

text \<open>
  C5. The success label is \<open>OK\<close>. The metrics interceptor reports exactly two things,
  one increment of the counter and one observation of the histogram, both labelled with
  the full method name and with the status label: the success label when the handler
  returns no error, the name of the error's gRPC status code otherwise.
\<close>

theorem MetricsUnaryInterceptor_reports:
  "Code_String codes_OK = ''OK'' \<and>
   events (MetricsUnaryInterceptor start finish ctx req info handler) =
     (let err = snd (handler ctx req);
          label = (case err of
                     None \<Rightarrow> Code_String codes_OK
                   | Some e \<Rightarrow> Code_String (status_Code err))
      in [Counter_Inc (FullMethod info) label,
          Histogram_Observe (FullMethod info) label (finish - start)])"
  by (simp add: MetricsUnaryInterceptor_def Let_def Code_String_OK
        split: prod.splits option.splits)

theorem MetricsUnaryInterceptor_reports_witness:
  "events (MetricsUnaryInterceptor 0 5 context_Background () test_info test_handler_error) =
     [Counter_Inc ''/test.Service/TestMethod'' ''Unknown'',
      Histogram_Observe ''/test.Service/TestMethod'' ''Unknown'' 5] \<and>
   events (MetricsUnaryInterceptor 0 5 context_Background () test_info test_handler) =
     [Counter_Inc ''/test.Service/TestMethod'' ''OK'',
      Histogram_Observe ''/test.Service/TestMethod'' ''OK'' 5]"
  using MetricsUnaryInterceptor_reports [of 0 5 context_Background "()" test_info test_handler_error]
        MetricsUnaryInterceptor_reports [of 0 5 context_Background "()" test_info test_handler]
  by (simp add: test_handler_error_def test_handler_def test_info_def
        status_Code_DeadlineExceeded Code_String_Unknown Let_def)

section \<open>Properties of the server trace interceptor\<close>

lemma ids_from_metadata_eq:
  "ids_from_metadata md ok =
     Inr (if ok \<and> md \<noteq> None
          then (case MD_Get md ''x-trace-id'' of [] \<Rightarrow> '''' | v # vs \<Rightarrow> v,
                case MD_Get md ''x-request-id'' of [] \<Rightarrow> '''' | v # vs \<Rightarrow> v)
          else ('''', ''''))"
  unfolding ids_from_metadata_def first_value_cases and_then_def by auto

lemma ids_from_incoming:
  "ids_from_metadata (fst (metadata_FromIncomingContext ctx)) (snd (metadata_FromIncomingContext ctx)) =
     Inr (case MD_Get (md_incoming ctx) ''x-trace-id'' of [] \<Rightarrow> '''' | v # vs \<Rightarrow> v,
          case MD_Get (md_incoming ctx) ''x-request-id'' of [] \<Rightarrow> '''' | v # vs \<Rightarrow> v)"
  by (cases "md_incoming ctx")
     (simp_all add: ids_from_metadata_eq metadata_FromIncomingContext_def MD_Get_nil)

lemma generateRequestID_nonempty: "generateRequestID w \<noteq> []"
proof (cases "rand w")
  case (RandFails e)
  then show ?thesis
    using length_fmt_Sprintf_x [of "time_Now_UnixNano w"]
    by (auto simp: generateRequestID_RandFails)
next
  case (RandYields f)
  have "length (generateRequestID w) = 32"
    by (simp add: generateRequestID_RandYields [OF RandYields] length_hex_EncodeToString)
  then show ?thesis by auto
qed

text \<open>
  The interceptor never panics, and its outcome can be written out: \<open>sctx\<close> is the
  context \<open>trace.StartSpan\<close> returns, \<open>tid\<close> and \<open>rid\<close> are the two identifiers, \<open>hctx\<close> is
  the context handed to the handler.
\<close>

lemma TraceUnaryInterceptor_closed_form:
  "TraceUnaryInterceptor tr w ctx req info handler =
     (let trace_hdr = (case MD_Get (md_incoming ctx) ''x-trace-id'' of [] \<Rightarrow> '''' | v # vs \<Rightarrow> v);
          request_hdr = (case MD_Get (md_incoming ctx) ''x-request-id'' of [] \<Rightarrow> '''' | v # vs \<Rightarrow> v);
          sctx = trace_StartSpan tr
                   (case md_incoming ctx of
                      None \<Rightarrow> ctx
                    | Some m \<Rightarrow> propagator_Extract tr ctx (Some m))
                   (FullMethod info);
          tid = (if trace_hdr = '''' then span_trace_id sctx else trace_hdr);
          rid = (if request_hdr = '''' then generateRequestID w else request_hdr);
          hctx = (if tid \<noteq> '''' then sctx\<lparr>log_trace_id := tid, log_request_id := rid\<rparr>
                  else sctx\<lparr>log_request_id := rid\<rparr>);
          res = handler hctx req
      in Inr \<lparr>returned = res,
              handler_ctx = hctx,
              events =
                [Span_Start (FullMethod info),
                 Logger_Info ''gRPC request started''
                   [zap_String ''method'' (FullMethod info),
                    zap_String ''trace_id'' tid,
                    zap_String ''span_id'' (span_span_id sctx)],
                 Span_SetAttributes
                   [(''rpc.method'', FullMethod info),
                    (''rpc.status_code'', Code_String (status_Code (snd res)))],
                 (case snd res of
                    Some e \<Rightarrow>
                      Logger_Error ''gRPC request failed''
                        [zap_String ''method'' (FullMethod info), zap_Error e]
                  | None \<Rightarrow>
                      Logger_Info ''gRPC request completed''
                        [zap_String ''method'' (FullMethod info)]),
                 Span_End],
              traceID_var = tid,
              requestID_var = rid\<rparr>)"
proof -
  obtain md ok where mo: "metadata_FromIncomingContext ctx = (md, ok)"
    by (cases "metadata_FromIncomingContext ctx")
  have ids: "ids_from_metadata md ok =
     Inr (case MD_Get (md_incoming ctx) ''x-trace-id'' of [] \<Rightarrow> '''' | v # vs \<Rightarrow> v,
          case MD_Get (md_incoming ctx) ''x-request-id'' of [] \<Rightarrow> '''' | v # vs \<Rightarrow> v)"
    using ids_from_incoming [of ctx] mo by simp
  have ext: "(if ok then propagator_Extract tr ctx md else ctx) =
             (case md_incoming ctx of None \<Rightarrow> ctx | Some m \<Rightarrow> propagator_Extract tr ctx (Some m))"
    using mo by (auto simp: metadata_FromIncomingContext_def split: option.splits)
  show ?thesis
    using generateRequestID_nonempty [of w]
    by (simp add: TraceUnaryInterceptor_def mo ids ext and_then_def Let_def
          trace_TraceIDFromContext_def trace_SpanIDFromContext_def
          log_ContextWithTraceID_def log_ContextWithRequestID_def
          log_TraceIDFromContext_def log_RequestIDFromContext_def
          split: prod.splits option.splits)
qed

subsection \<open>The tests' calls, evaluated\<close>

lemma generateRequestID_test_world: "generateRequestID test_world = ''ff''"
  by (simp add: test_world_def generateRequestID_def rand_Read_def fmt_Sprintf_x_def
        fmtInteger_hex.simps hextable_def)

lemma test_run_ok:
  "TraceUnaryInterceptor otel_noop test_world context_Background () test_info test_handler =
     Inr \<lparr>returned = (Some ''response'', None),
          handler_ctx = context_Background\<lparr>log_request_id := ''ff''\<rparr>,
          events =
            [Span_Start ''/test.Service/TestMethod'',
             Logger_Info ''gRPC request started''
               [zap_String ''method'' ''/test.Service/TestMethod'',
                zap_String ''trace_id'' '''',
                zap_String ''span_id'' ''''],
             Span_SetAttributes
               [(''rpc.method'', ''/test.Service/TestMethod''), (''rpc.status_code'', ''OK'')],
             Logger_Info ''gRPC request completed''
               [zap_String ''method'' ''/test.Service/TestMethod''],
             Span_End],
          traceID_var = '''',
          requestID_var = ''ff''\<rparr>"
  by (simp add: TraceUnaryInterceptor_closed_form Let_def generateRequestID_test_world
        context_Background_def otel_noop_def test_info_def test_handler_def MD_Get_nil
        status_Code_None Code_String_OK)

lemma test_run_error:
  "TraceUnaryInterceptor otel_noop test_world context_Background () test_info test_handler_error =
     Inr \<lparr>returned = (None, Some context_DeadlineExceeded),
          handler_ctx = context_Background\<lparr>log_request_id := ''ff''\<rparr>,
          events =
            [Span_Start ''/test.Service/TestMethod'',
             Logger_Info ''gRPC request started''
               [zap_String ''method'' ''/test.Service/TestMethod'',
                zap_String ''trace_id'' '''',
                zap_String ''span_id'' ''''],
             Span_SetAttributes
               [(''rpc.method'', ''/test.Service/TestMethod''), (''rpc.status_code'', ''Unknown'')],
             Logger_Error ''gRPC request failed''
               [zap_String ''method'' ''/test.Service/TestMethod'',
                zap_Error context_DeadlineExceeded],
             Span_End],
          traceID_var = '''',
          requestID_var = ''ff''\<rparr>"
  by (simp add: TraceUnaryInterceptor_closed_form Let_def generateRequestID_test_world
        context_Background_def otel_noop_def test_info_def test_handler_error_def MD_Get_nil
        status_Code_DeadlineExceeded Code_String_Unknown)

lemma strings_ToLower_trace_id: "strings_ToLower ''x-trace-id'' = ''x-trace-id''"
  by (simp add: strings_ToLower_def)

lemma strings_ToLower_request_id: "strings_ToLower ''x-request-id'' = ''x-request-id''"
  by (simp add: strings_ToLower_def)

lemma test_incoming_headers:
  "MD_Get (md_incoming test_incoming_context) ''x-trace-id'' = [''trace-1'']"
  "MD_Get (md_incoming test_incoming_context) ''x-request-id'' = []"
  by (simp_all add: test_incoming_context_def context_Background_def MD_Get_def
        strings_ToLower_trace_id strings_ToLower_request_id)

subsection \<open>The claims about the server interceptors\<close>

text \<open>
  C1. For every handler and every request, both server interceptors return exactly the
  pair of response and error that the handler returned: the metrics interceptor calls
  the handler with the context it was given, the trace interceptor (which never panics)
  with the context it has prepared.
\<close>

theorem interceptors_return_handler_result:
  "returned (MetricsUnaryInterceptor start finish ctx req info handler) = handler ctx req \<and>
   (\<exists>out. TraceUnaryInterceptor tr w ctx req info handler = Inr out \<and>
          returned out = handler (handler_ctx out) req)"
  by (simp add: MetricsUnaryInterceptor_returned TraceUnaryInterceptor_closed_form Let_def)

text \<open>\<open>TestMetricsUnaryInterceptor_WithError\<close> and \<open>TestTraceUnaryInterceptor_WithError\<close>.\<close>

theorem interceptors_return_handler_result_witness:
  "returned (MetricsUnaryInterceptor 0 5 context_Background () test_info test_handler_error) =
     (None, Some context_DeadlineExceeded) \<and>
   (\<exists>out. TraceUnaryInterceptor otel_noop test_world context_Background () test_info
            test_handler_error = Inr out \<and>
          returned out = (None, Some context_DeadlineExceeded))"
  using interceptors_return_handler_result
          [of 0 5 context_Background "()" test_info test_handler_error otel_noop test_world]
  by (simp add: test_handler_error_def)

text \<open>
  C6. In the server trace interceptor the trace identifier is the first value of the
  inbound \<open>x-trace-id\<close> header when the header has a value and that value is not empty,
  and otherwise the trace identifier of the span context after \<open>trace.StartSpan\<close>. The
  request identifier is the first value of the inbound \<open>x-request-id\<close> header when the
  header has a value and that value is not empty, and otherwise a generated one.
\<close>

theorem TraceUnaryInterceptor_identifiers:
  "\<exists>out. TraceUnaryInterceptor tr w ctx req info handler = Inr out \<and>
     traceID_var out =
       (let from_span =
              trace_TraceIDFromContext
                (trace_StartSpan tr
                   (case md_incoming ctx of
                      None \<Rightarrow> ctx
                    | Some m \<Rightarrow> propagator_Extract tr ctx (Some m))
                   (FullMethod info))
        in case MD_Get (md_incoming ctx) ''x-trace-id'' of
             [] \<Rightarrow> from_span
           | v # vs \<Rightarrow> if v = '''' then from_span else v) \<and>
     requestID_var out =
       (case MD_Get (md_incoming ctx) ''x-request-id'' of
          [] \<Rightarrow> generateRequestID w
        | v # vs \<Rightarrow> if v = '''' then generateRequestID w else v)"
  by (simp add: TraceUnaryInterceptor_closed_form Let_def trace_TraceIDFromContext_def
        split: list.splits)

text \<open>A call whose inbound metadata carries \<open>x-trace-id\<close> and no \<open>x-request-id\<close>.\<close>

theorem TraceUnaryInterceptor_identifiers_witness:
  "\<exists>out. TraceUnaryInterceptor otel_noop test_world test_incoming_context () test_info
           test_handler = Inr out \<and>
     traceID_var out = ''trace-1'' \<and> requestID_var out = ''ff''"
  using TraceUnaryInterceptor_identifiers
          [of otel_noop test_world test_incoming_context "()" test_info test_handler]
  by (simp add: test_incoming_headers generateRequestID_test_world)

text \<open>
  C7. The events of the server trace interceptor are, in this order: the start of the
  span; the request-start log event, exactly when the trace identifier or the request
  identifier is not empty; the span attributes; one log event for the end of the call,
  the completion event when the handler returned no error and the failure event with
  the error when it returned one; the end of the span.
\<close>

theorem TraceUnaryInterceptor_logging:
  "\<exists>out. TraceUnaryInterceptor tr w ctx req info handler = Inr out \<and>
     events out =
       [Span_Start (FullMethod info)] @
       (if traceID_var out \<noteq> '''' \<or> requestID_var out \<noteq> '''' then
          [Logger_Info ''gRPC request started''
             [zap_String ''method'' (FullMethod info),
              zap_String ''trace_id'' (traceID_var out),
              zap_String ''span_id'' (trace_SpanIDFromContext (handler_ctx out))]]
        else []) @
       [Span_SetAttributes
          [(''rpc.method'', FullMethod info),
           (''rpc.status_code'', Code_String (status_Code (snd (returned out))))]] @
       [case snd (returned out) of
          None \<Rightarrow>
            Logger_Info ''gRPC request completed'' [zap_String ''method'' (FullMethod info)]
        | Some e \<Rightarrow>
            Logger_Error ''gRPC request failed''
              [zap_String ''method'' (FullMethod info), zap_Error e]] @
       [Span_End]"
  using generateRequestID_nonempty [of w]
  by (simp add: TraceUnaryInterceptor_closed_form Let_def trace_SpanIDFromContext_def)

text \<open>The events of \<open>TestTraceUnaryInterceptor_WithError\<close>.\<close>

theorem TraceUnaryInterceptor_logging_witness:
  "\<exists>out. TraceUnaryInterceptor otel_noop test_world context_Background () test_info
           test_handler_error = Inr out \<and>
     events out =
       [Span_Start ''/test.Service/TestMethod'',
        Logger_Info ''gRPC request started''
          [zap_String ''method'' ''/test.Service/TestMethod'',
           zap_String ''trace_id'' '''',
           zap_String ''span_id'' ''''],
        Span_SetAttributes
          [(''rpc.method'', ''/test.Service/TestMethod''), (''rpc.status_code'', ''Unknown'')],
        Logger_Error ''gRPC request failed''
          [zap_String ''method'' ''/test.Service/TestMethod'',
           zap_Error context_DeadlineExceeded],
        Span_End]"
  using TraceUnaryInterceptor_logging
          [of otel_noop test_world context_Background "()" test_info test_handler_error]
  by (simp add: test_run_error)

text \<open>
  C9. \<open>generateRequestID\<close> never returns the empty string, on either path. So in every
  call of the server trace interceptor the request identifier is not empty, it is the
  request identifier of the context handed to the handler, and the request-start event
  is logged.
\<close>

theorem request_id_always_present:
  "generateRequestID w \<noteq> '''' \<and>
   (\<exists>out. TraceUnaryInterceptor tr w ctx req info handler = Inr out \<and>
      requestID_var out \<noteq> '''' \<and>
      log_RequestIDFromContext (handler_ctx out) = requestID_var out \<and>
      Logger_Info ''gRPC request started''
        [zap_String ''method'' (FullMethod info),
         zap_String ''trace_id'' (traceID_var out),
         zap_String ''span_id'' (trace_SpanIDFromContext (handler_ctx out))]
        \<in> set (events out))"
  using generateRequestID_nonempty [of w]
  by (simp add: TraceUnaryInterceptor_closed_form Let_def trace_SpanIDFromContext_def
        log_RequestIDFromContext_def)

text \<open>\<open>TestTraceUnaryInterceptor_HandlerInvocation\<close>, with a failing random source.\<close>

theorem request_id_always_present_witness:
  "generateRequestID test_world = ''ff'' \<and>
   (\<exists>out. TraceUnaryInterceptor otel_noop test_world context_Background () test_info
            test_handler = Inr out \<and>
      requestID_var out = ''ff'' \<and>
      log_RequestIDFromContext (handler_ctx out) = ''ff'' \<and>
      Logger_Info ''gRPC request started''
        [zap_String ''method'' ''/test.Service/TestMethod'',
         zap_String ''trace_id'' '''',
         zap_String ''span_id'' '''']
        \<in> set (events out))"
  using request_id_always_present
          [of test_world otel_noop context_Background "()" test_info test_handler]
  by (simp add: test_run_ok generateRequestID_test_world log_RequestIDFromContext_def)

section \<open>Properties of the client trace interceptor\<close>

text \<open>Injecting into a map that is not nil never panics, and leaves a map that is not nil.\<close>

lemma carrier_set_all_allocated: "\<exists>m'. carrier_set_all kvs (Some m) = Inr (Some m')"
proof (induction kvs arbitrary: m)
  case Nil
  show ?case by simp
next
  case (Cons kv kvs)
  obtain k v where kv: "kv = (k, v)" by (cases kv)
  show ?case
    using Cons.IH [of "DAList.update (strings_ToLower k) [v] m"]
    by (simp add: kv metadataCarrier_Set_Some and_then_def)
qed

lemma TraceUnaryClientInterceptor_closed_form:
  "\<exists>md'. TraceUnaryClientInterceptor tr ctx method req reply invoker =
     (let sctx = trace_StartSpan tr ctx method;
          ictx = sctx\<lparr>md_outgoing := Some md'\<rparr>;
          err = invoker ictx method req reply
      in Inr \<lparr>returned_err = err,
              invoker_ctx = ictx,
              client_events =
                [Span_Start method,
                 Span_SetAttributes [(''rpc.method'', method), (''rpc.system'', ''grpc'')]] @
                (case err of
                   Some e \<Rightarrow>
                     [Span_SetAttributes [(''rpc.status_code'', Code_String (status_Code err))],
                      Span_RecordError e]
                 | None \<Rightarrow> [Span_SetAttributes [(''rpc.status_code'', ''OK'')]]) @
                [Span_End]\<rparr>)"
proof -
  define sctx where "sctx = trace_StartSpan tr ctx method"
  define m0 where "m0 = (case md_outgoing sctx of None \<Rightarrow> DAList.empty | Some m \<Rightarrow> m)"
  obtain md' where inj: "carrier_set_all (propagator_fields tr sctx) (Some m0) = Inr (Some md')"
    using carrier_set_all_allocated by blast
  have "TraceUnaryClientInterceptor tr ctx method req reply invoker =
     (let ictx = sctx\<lparr>md_outgoing := Some md'\<rparr>;
          err = invoker ictx method req reply
      in Inr \<lparr>returned_err = err,
              invoker_ctx = ictx,
              client_events =
                [Span_Start method,
                 Span_SetAttributes [(''rpc.method'', method), (''rpc.system'', ''grpc'')]] @
                (case err of
                   Some e \<Rightarrow>
                     [Span_SetAttributes [(''rpc.status_code'', Code_String (status_Code err))],
                      Span_RecordError e]
                 | None \<Rightarrow> [Span_SetAttributes [(''rpc.status_code'', ''OK'')]]) @
                [Span_End]\<rparr>)"
    using inj
    by (cases "md_outgoing sctx")
       (simp_all add: TraceUnaryClientInterceptor_def sctx_def [symmetric]
          metadata_FromOutgoingContext_def m0_def propagator_Inject_def and_then_def
          metadata_NewOutgoingContext_def Let_def split: option.splits)
  then show ?thesis by (auto simp: sctx_def Let_def)
qed

text \<open>
  C8. The client trace interceptor never panics and returns exactly the error the
  invoker returned. When that error is not nil the span gets the name of the error's
  status code as its \<open>rpc.status_code\<close> attribute and the error is recorded on the span;
  when it is nil the attribute is set to \<open>OK\<close> and nothing is recorded.
\<close>

theorem TraceUnaryClientInterceptor_reports:
  "\<exists>out. TraceUnaryClientInterceptor tr ctx method req reply invoker = Inr out \<and>
     returned_err out = invoker (invoker_ctx out) method req reply \<and>
     client_events out =
       [Span_Start method,
        Span_SetAttributes [(''rpc.method'', method), (''rpc.system'', ''grpc'')]] @
       (case returned_err out of
          Some e \<Rightarrow>
            [Span_SetAttributes [(''rpc.status_code'', Code_String (status_Code (Some e)))],
             Span_RecordError e]
        | None \<Rightarrow> [Span_SetAttributes [(''rpc.status_code'', ''OK'')]]) @
       [Span_End]"
  using TraceUnaryClientInterceptor_closed_form [of tr ctx "method" req reply invoker]
  by (elim exE) (simp add: Let_def split: option.splits)

theorem TraceUnaryClientInterceptor_reports_witness:
  "\<exists>out. TraceUnaryClientInterceptor otel_noop context_Background ''/test.Service/TestMethod''
           () () test_invoker_error = Inr out \<and>
     returned_err out = Some context_DeadlineExceeded \<and>
     client_events out =
       [Span_Start ''/test.Service/TestMethod'',
        Span_SetAttributes
          [(''rpc.method'', ''/test.Service/TestMethod''), (''rpc.system'', ''grpc'')],
        Span_SetAttributes [(''rpc.status_code'', ''Unknown'')],
        Span_RecordError context_DeadlineExceeded,
        Span_End]"
  using TraceUnaryClientInterceptor_reports
          [of otel_noop context_Background "''/test.Service/TestMethod''" "()" "()"
              test_invoker_error]
  by (auto simp: test_invoker_error_def status_Code_DeadlineExceeded Code_String_Unknown)

end
